theory Spec2Isabelle
  imports Main "HOL-Library.Word" "HOL-Library.Sublist"
begin

section \<open>The request gateway of the acne tracker API (\<open>src/back/src/api/api.py\<close>)\<close>

text \<open>
  The module is an HTTP facade over three collaborators (profile store, correlation engine,
  detection engine).  Each handler is embedded as a function that takes the module's globals
  and library primitives as an environment, the request, and the state of the outside world,
  and returns either the \<open>HTTPException\<close> it raises (\<open>Inl\<close>) or the value it returns (\<open>Inr\<close>),
  together with the world it leaves behind.

  A handler raises an \<open>HTTPException\<close> itself or lets another exception escape; both are
  values of \<open>py_exception\<close>.  Library calls that can fail (creating the temporary file, reading
  the upload, writing it, \<open>cv2.imwrite\<close>, \<open>os.remove\<close>, the two encoders) fail when the
  environment says so.  Console output (\<open>print\<close>, \<open>traceback.print_exc\<close>) is not modelled.
\<close>

subsection \<open>Values\<close>

type_synonym path = string
type_synonym bytes = "8 word list"

text \<open>A Python float is carried as its IEEE-754 bit pattern; the handlers never compute with one.\<close>
type_synonym float64 = "64 word"

text \<open>What leaves a handler: \<open>fastapi.HTTPException(status_code, detail)\<close>, or an exception
  that no \<open>except\<close> clause of the handler catches.\<close>
datatype py_exception =
  HTTPException (status_code: nat) (detail: string)
| AttributeError
| TypeError
| ValidationError

text \<open>A \<open>numpy.ndarray\<close> holding an image: its shape and its raw data.\<close>
record ndarray =
  rows :: nat
  cols :: nat
  data :: bytes

text \<open>The disk, and the log of collaborator invocations (with the file handed over, as it is
  on disk at the time of the call).\<close>
datatype call =
  Analyze_skin_image_call path path "bytes option"
| Analyze_acne_data_call path

record world =
  files :: "path \<rightharpoonup> bytes"
  calls :: "call list"

subsection \<open>Pydantic models\<close>

record date =
  year :: nat
  month :: nat
  day :: nat

record Profile =
  user_id :: string
  name :: string
  dob :: date
  height :: float64
  weight :: float64
  gender :: "string option"

record AnalysisResponse =
  correlations :: "(string \<times> float64) list"
  summary :: string

record DetectionInfo =
  class_name :: string
  confidence :: float64

record DetectionResponse =
  success :: bool
  message :: string
  severity_score :: "float64 option"
  percentage_area :: "float64 option"
  average_intensity :: "float64 option"
  lesion_count :: "int option"
  heatmap_image_base64 :: "string option"
  detections :: "DetectionInfo list option"
  model_classes :: "(int \<times> string) list option"

subsection \<open>What the collaborators hand back\<close>

text \<open>
  The dictionary returned by \<open>analyze_skin_image\<close>.  For each key the handler reads, the
  key is missing, or holds Python's \<open>None\<close>, or holds a value of the type the collaborator's
  interface gives it; \<open>other_keys\<close> are the keys the handler never reads.
  \<open>heatmap_overlay_bgr\<close> may hold something that is not an \<open>ndarray\<close>; the handler tests for it.
\<close>
datatype 'a entry = Missing | Is_None | Value 'a

datatype heatmap_value = Ndarray ndarray | Not_ndarray

record detection_dict =
  get_class_name :: string
  get_confidence :: float64

record analysis_dict =
  key_success :: "bool entry"
  key_message :: "string entry"
  key_severity_score :: "float64 entry"
  key_percentage_area :: "float64 entry"
  key_average_intensity :: "float64 entry"
  key_lesion_count :: "int entry"
  key_heatmap_overlay_bgr :: "heatmap_value entry"
  key_detections :: "detection_dict list entry"
  key_model_classes :: "(int \<times> string) list entry"
  other_keys :: "string list"

text \<open>\<open>d.get(k)\<close> and \<open>d.get(k, default)\<close>: a key that holds \<open>None\<close> gives \<open>None\<close> in both.\<close>
definition dict_get :: "'a entry \<Rightarrow> 'a option" where
  "dict_get e = (case e of Missing \<Rightarrow> None | Is_None \<Rightarrow> None | Value x \<Rightarrow> Some x)"

definition dict_get_default :: "'a entry \<Rightarrow> 'a \<Rightarrow> 'a option" where
  "dict_get_default e d = (case e of Missing \<Rightarrow> Some d | Is_None \<Rightarrow> None | Value x \<Rightarrow> Some x)"

definition get_success :: "analysis_dict \<Rightarrow> bool option" where
  "get_success d = dict_get (key_success d)"

definition get_message :: "analysis_dict \<Rightarrow> string option" where
  "get_message d = dict_get (key_message d)"

definition get_severity_score :: "analysis_dict \<Rightarrow> float64 option" where
  "get_severity_score d = dict_get (key_severity_score d)"

definition get_percentage_area :: "analysis_dict \<Rightarrow> float64 option" where
  "get_percentage_area d = dict_get (key_percentage_area d)"

definition get_average_intensity :: "analysis_dict \<Rightarrow> float64 option" where
  "get_average_intensity d = dict_get (key_average_intensity d)"

definition get_lesion_count :: "analysis_dict \<Rightarrow> int option" where
  "get_lesion_count d = dict_get (key_lesion_count d)"

definition get_heatmap_overlay_bgr :: "analysis_dict \<Rightarrow> heatmap_value option" where
  "get_heatmap_overlay_bgr d = dict_get (key_heatmap_overlay_bgr d)"

definition get_detections :: "analysis_dict \<Rightarrow> detection_dict list option" where
  "get_detections d = dict_get (key_detections d)"

definition get_model_classes :: "analysis_dict \<Rightarrow> (int \<times> string) list option" where
  "get_model_classes d = dict_get (key_model_classes d)"

text \<open>A call of \<open>analyze_skin_image\<close> raises (an \<open>HTTPException\<close> or something else), or
  returns \<open>None\<close> or a dictionary.\<close>
datatype skin_outcome =
  Skin_raises_HTTPException nat string
| Skin_raises_Exception string
| Skin_returns "analysis_dict option"

text \<open>A call of \<open>analyze_acne_data\<close> raises (the string is \<open>str(e)\<close>) or returns its pair.\<close>
datatype acne_outcome =
  Acne_raises_FileNotFoundError string
| Acne_raises_Exception string
| Acne_returns "(string \<times> float64) list" string

text \<open>A call of \<open>save_profile_to_db\<close> raises (the string is \<open>str(e)\<close>) or returns.\<close>
datatype save_outcome = Save_raises string | Save_returns

record save_args =
  arg_user_id :: string
  arg_name :: string
  arg_dob :: string
  arg_height :: float64
  arg_weight :: float64
  arg_gender :: "string option"

text \<open>\<open>success, buffer = cv2.imencode('.png', heatmap_data)\<close>, or an exception.\<close>
datatype imencode_result = Imencode_raises | Imencode_returns bool bytes

text \<open>\<open>cv2.imwrite(path, img)\<close> raises, or returns \<open>False\<close> and has written nothing, or returns
  \<open>True\<close> and has written these bytes.\<close>
datatype imwrite_result = Imwrite_raises | Imwrite_returns_False | Imwrite_writes bytes

subsection \<open>The environment: module globals and library primitives\<close>

record env =
  BACK_DIR :: path
  analyze_skin_image ::
    "(path \<Rightarrow> path \<Rightarrow> (path \<rightharpoonup> bytes) \<Rightarrow> skin_outcome \<times> (path \<rightharpoonup> bytes)) option"
  analyze_acne_data :: "(path \<Rightarrow> (path \<rightharpoonup> bytes) \<Rightarrow> acne_outcome) option"
  gettempdir :: path
  random_name :: string
  mkstemp_raises :: "path \<Rightarrow> bool"
  read_raises :: bool
  write_raises :: bool
  imdecode :: "bytes \<Rightarrow> ndarray option"
  resample :: "ndarray \<Rightarrow> nat \<times> nat \<Rightarrow> bytes"
  imwrite_encode :: "path \<Rightarrow> ndarray \<Rightarrow> imwrite_result"
  remove_raises_OSError :: "path \<Rightarrow> bool"
  imencode_png :: "ndarray \<Rightarrow> imencode_result"
  b64encode_decode :: "bytes \<Rightarrow> string option"

text \<open>
  \<^item> \<open>analyze_skin_image\<close>, \<open>analyze_acne_data\<close>: \<open>None\<close> when the import at module load failed.
    A collaborator sees its arguments and the disk; the detection engine also hands back the
    disk as it leaves it, whether it returns or raises.
  \<^item> \<open>gettempdir\<close>, \<open>random_name\<close>: the directory and the random characters \<open>tempfile\<close> picks for
    this call; \<open>tempfile\<close> only hands out a name that does not exist yet.
  \<^item> \<open>mkstemp_raises\<close>: whether creating a file of that name fails (\<open>OSError\<close> for a name that
    is too long, \<open>ValueError\<close> for an embedded NUL, a full disk).
  \<^item> \<open>read_raises\<close>, \<open>write_raises\<close>: whether \<open>await file.read()\<close> and
    \<open>temp_image_file.write(content)\<close> raise.
  \<^item> \<open>imdecode\<close>: the decoder behind \<open>cv2.imread\<close>, \<open>None\<close> when the bytes are no image.
  \<^item> \<open>resample\<close>: the interpolation behind \<open>cv2.resize\<close>.
  \<^item> \<open>imwrite_encode\<close>: what \<open>cv2.imwrite\<close> does with the encoder it picks from the path's
    extension.
  \<^item> \<open>remove_raises_OSError\<close>: whether \<open>os.remove\<close> fails on that path.
  \<^item> \<open>b64encode_decode\<close> is \<open>base64.b64encode(_).decode('utf-8')\<close>, \<open>None\<close> when it raises.
\<close>

subsection \<open>Library primitives\<close>

text \<open>\<open>posixpath.join\<close>.\<close>
fun os_path_join :: "path \<Rightarrow> string list \<Rightarrow> path" where
  "os_path_join p [] = p"
| "os_path_join p (b # bs) =
     os_path_join
       (if prefix ''/'' b then b
        else if p = [] \<or> suffix ''/'' p then p @ b
        else p @ ''/'' @ b) bs"

definition os_path_exists :: "world \<Rightarrow> path \<Rightarrow> bool" where
  "os_path_exists w p = (files w p \<noteq> None)"

text \<open>\<open>os.remove\<close>: \<open>None\<close> when it raises \<open>OSError\<close>.\<close>
definition os_remove :: "env \<Rightarrow> path \<Rightarrow> world \<Rightarrow> world option" where
  "os_remove env p w =
     (if remove_raises_OSError env p then None
      else Some (w\<lparr>files := (files w)(p := None)\<rparr>))"

text \<open>\<open>posixpath.splitext(p)[1]\<close>: from the last dot of the last path component, unless only
  dots come before it in that component.\<close>
definition splitext_ext :: "string \<Rightarrow> string" where
  "splitext_ext p =
     (let base = rev (takeWhile (\<lambda>c. c \<noteq> CHR ''/'') (rev p));
          ext = rev (takeWhile (\<lambda>c. c \<noteq> CHR ''.'') (rev base));
          stem = take (length base - length ext - 1) base
      in if CHR ''.'' \<in> set base \<and> filter (\<lambda>c. c \<noteq> CHR ''.'') stem \<noteq> []
         then CHR ''.'' # ext else [])"

text \<open>\<open>tempfile.NamedTemporaryFile(delete=False, suffix=s)\<close>: \<open>None\<close> when it raises; otherwise
  the file exists, empty, as soon as the object is constructed, and leaving the \<open>with\<close> block
  only closes it.\<close>
definition temp_name :: "env \<Rightarrow> string \<Rightarrow> path" where
  "temp_name env s = os_path_join (gettempdir env) [''tmp'' @ random_name env @ s]"

definition NamedTemporaryFile :: "env \<Rightarrow> string \<Rightarrow> world \<Rightarrow> (path \<times> world) option" where
  "NamedTemporaryFile env s w =
     (let p = temp_name env s in
      if mkstemp_raises env p then None
      else Some (p, w\<lparr>files := (files w)(p \<mapsto> [])\<rparr>))"

definition file_write :: "path \<Rightarrow> bytes \<Rightarrow> world \<Rightarrow> world" where
  "file_write p content w = w\<lparr>files := (files w)(p \<mapsto> content)\<rparr>"

definition cv2_imread :: "env \<Rightarrow> world \<Rightarrow> path \<Rightarrow> ndarray option" where
  "cv2_imread env w p = (case files w p of None \<Rightarrow> None | Some b \<Rightarrow> imdecode env b)"

text \<open>\<open>cv2.resize(img, (width, height))\<close>: the result has exactly the requested size.\<close>
definition cv2_resize :: "env \<Rightarrow> ndarray \<Rightarrow> nat \<times> nat \<Rightarrow> ndarray" where
  "cv2_resize env img dsize =
     \<lparr>rows = snd dsize, cols = fst dsize, data = resample env img dsize\<rparr>"

text \<open>\<open>cv2.imwrite(path, img)\<close>: \<open>None\<close> when it raises, otherwise the flag it returns and the
  world it leaves.\<close>
definition cv2_imwrite :: "env \<Rightarrow> path \<Rightarrow> ndarray \<Rightarrow> world \<Rightarrow> (bool \<times> world) option" where
  "cv2_imwrite env p img w =
     (case imwrite_encode env p img of
        Imwrite_raises \<Rightarrow> None
      | Imwrite_returns_False \<Rightarrow> Some (False, w)
      | Imwrite_writes b \<Rightarrow> Some (True, file_write p b w))"

text \<open>\<open>str.lower\<close> on the ASCII letters, and \<open>sub in s\<close>.\<close>
definition ascii_uppercase :: string where
  "ascii_uppercase = ''ABCDEFGHIJKLMNOPQRSTUVWXYZ''"

definition ascii_lowercase :: string where
  "ascii_lowercase = ''abcdefghijklmnopqrstuvwxyz''"

definition lower_char :: "char \<Rightarrow> char" where
  "lower_char c =
     (case map_of (zip ascii_uppercase ascii_lowercase) c of Some l \<Rightarrow> l | None \<Rightarrow> c)"

definition lower :: "string \<Rightarrow> string" where
  "lower s = map lower_char s"

fun str_contains :: "string \<Rightarrow> string \<Rightarrow> bool" where
  "str_contains [] sub = (sub = [])"
| "str_contains (c # cs) sub = (prefix sub (c # cs) \<or> str_contains cs sub)"

text \<open>\<open>f"{x}"\<close> of an optional string.\<close>
definition str_opt :: "string option \<Rightarrow> string" where
  "str_opt x = (case x of None \<Rightarrow> ''None'' | Some s \<Rightarrow> s)"

text \<open>\<open>date.isoformat()\<close>: \<open>YYYY-MM-DD\<close>.\<close>
definition digit :: "nat \<Rightarrow> char" where
  "digit n = ''0123456789'' ! (n mod 10)"

definition isoformat :: "date \<Rightarrow> string" where
  "isoformat d =
     [digit (year d div 1000), digit (year d div 100), digit (year d div 10), digit (year d)]
     @ ''-'' @ [digit (month d div 10), digit (month d)]
     @ ''-'' @ [digit (day d div 10), digit (day d)]"

subsection \<open>\<open>POST /profile/\<close>\<close>

text \<open>The profile store's state is whatever the collaborator keeps; it may change it before
  it raises.\<close>
definition save_args_of :: "Profile \<Rightarrow> save_args" where
  "save_args_of profile =
     \<lparr>arg_user_id = user_id profile, arg_name = name profile,
      arg_dob = isoformat (dob profile), arg_height = height profile,
      arg_weight = weight profile, arg_gender = gender profile\<rparr>"

definition save_profile_endpoint ::
  "(save_args \<Rightarrow> 'db \<Rightarrow> save_outcome \<times> 'db) option \<Rightarrow> Profile \<Rightarrow> 'db
     \<Rightarrow> (py_exception + (string \<times> string) list) \<times> 'db" where
  "save_profile_endpoint save_profile_to_db profile db =
     (case save_profile_to_db of
        None \<Rightarrow> (Inl (HTTPException 501 ''Profile saving feature not available.''), db)
      | Some save \<Rightarrow>
          (case save (save_args_of profile) db of
             (Save_returns, db') \<Rightarrow> (Inr [(''message'', ''Profile saved successfully'')], db')
           | (Save_raises e, db') \<Rightarrow> (Inl (HTTPException 500 ''Failed to save profile.''), db')))"

subsection \<open>\<open>GET /analyze/\<close>\<close>

text \<open>What the \<open>try\<close> body of \<open>analyze_endpoint\<close> raises: the string is \<open>str(e)\<close>.\<close>
datatype analyze_raised = FileNotFoundError string | Exception string

definition analyze_try ::
  "env \<Rightarrow> (path \<Rightarrow> (path \<rightharpoonup> bytes) \<Rightarrow> acne_outcome) \<Rightarrow> world
     \<Rightarrow> (analyze_raised + AnalysisResponse) \<times> world" where
  "analyze_try env analyze w =
     (let db_path = os_path_join (BACK_DIR env) [[], ''acne_tracker.db''] in
      if \<not> os_path_exists w db_path
      then (Inl (FileNotFoundError (''Database file not found at required path: '' @ db_path)), w)
      else
        let w1 = w\<lparr>calls := calls w @ [Analyze_acne_data_call db_path]\<rparr> in
        (case analyze db_path (files w) of
           Acne_raises_FileNotFoundError e \<Rightarrow> (Inl (FileNotFoundError e), w1)
         | Acne_raises_Exception e \<Rightarrow> (Inl (Exception e), w1)
         | Acne_returns cs sm \<Rightarrow> (Inr \<lparr>correlations = cs, summary = sm\<rparr>, w1)))"

definition analyze_endpoint ::
  "env \<Rightarrow> world \<Rightarrow> (py_exception + AnalysisResponse) \<times> world" where
  "analyze_endpoint env w =
     (case analyze_acne_data env of
        None \<Rightarrow> (Inl (HTTPException 501 ''Correlation analysis feature not available.''), w)
      | Some analyze \<Rightarrow>
          (case analyze_try env analyze w of
             (Inl (FileNotFoundError e), w') \<Rightarrow> (Inl (HTTPException 404 e), w')
           | (Inl (Exception e), w') \<Rightarrow>
               (Inl (HTTPException 500 (''Failed during correlation analysis: '' @ e)), w')
           | (Inr r, w') \<Rightarrow> (Inr r, w')))"

subsection \<open>\<open>POST /detect\<close>\<close>

text \<open>The upload: \<open>read\<close> is what \<open>await file.read()\<close> returns when it does not raise.  The
  declared content type may be missing; the filename is a string, since a multipart part only
  becomes an upload when it carries one.\<close>
record UploadFile =
  filename :: string
  content_type :: "string option"
  read :: bytes

definition MODEL_WEIGHTS_PATH :: "env \<Rightarrow> path" where
  "MODEL_WEIGHTS_PATH env = os_path_join (BACK_DIR env) [''src'', ''detection'', ''best.pt'']"

definition allowed_types :: "string list" where
  "allowed_types = [''image/jpeg'', ''image/png'', ''image/bmp'']"

text \<open>What the \<open>try\<close> body of \<open>detect_skin_conditions\<close> raises: an \<open>HTTPException\<close>, or
  something that only \<open>except Exception\<close> catches.\<close>
datatype detect_raised = Raised_HTTPException nat string | Raised_Exception

text \<open>
  Lines 196 to 230, the body of the \<open>try\<close>.  The result is what the body raises or the value
  bound to \<open>analysis_results\<close>, the value of \<open>temp_image_path\<close> when the body is left, and the
  world.  \<open>temp_image_path\<close> is assigned after the emptiness test and the write; a \<open>write\<close>
  that raises is taken to leave the file as it was created.  The flag that \<open>cv2.imwrite\<close>
  returns is dropped.  The collaborator is handed the disk and leaves it as it likes.
\<close>
definition detect_try ::
  "env \<Rightarrow> (path \<Rightarrow> path \<Rightarrow> (path \<rightharpoonup> bytes) \<Rightarrow> skin_outcome \<times> (path \<rightharpoonup> bytes))
     \<Rightarrow> UploadFile \<Rightarrow> world
     \<Rightarrow> (detect_raised + analysis_dict option) \<times> path option \<times> world" where
  "detect_try env analyze file w =
     (case NamedTemporaryFile env (splitext_ext (filename file)) w of
        None \<Rightarrow> (Inl Raised_Exception, None, w)
      | Some (temp_image_file, w1) \<Rightarrow>
          if read_raises env then (Inl Raised_Exception, None, w1)
          else
            let content = read file in
            if content = []
            then (Inl (Raised_HTTPException 400 ''Received empty file content.''), None, w1)
            else if write_raises env then (Inl Raised_Exception, None, w1)
            else
              let w2 = file_write temp_image_file content w1;
                  temp_image_path = temp_image_file
              in
              (case cv2_imread env w2 temp_image_path of
                 None \<Rightarrow>
                   (Inl (Raised_HTTPException 400 ''Could not read the uploaded image.''),
                    Some temp_image_path, w2)
               | Some img \<Rightarrow>
                   let resized_img = cv2_resize env img (640, 640) in
                   (case cv2_imwrite env temp_image_path resized_img w2 of
                      None \<Rightarrow> (Inl Raised_Exception, Some temp_image_path, w2)
                    | Some (written, w3) \<Rightarrow>
                        if \<not> os_path_exists w3 (MODEL_WEIGHTS_PATH env)
                        then (Inl (Raised_HTTPException 503
                                ''Required analysis model file is currently unavailable.''),
                              Some temp_image_path, w3)
                        else
                          (case analyze (MODEL_WEIGHTS_PATH env) temp_image_path (files w3) of
                             (outcome, disk) \<Rightarrow>
                               let w4 = w3\<lparr>files := disk,
                                          calls := calls w3 @
                                            [Analyze_skin_image_call (MODEL_WEIGHTS_PATH env)
                                               temp_image_path (files w3 temp_image_path)]\<rparr>
                               in
                               (case outcome of
                                  Skin_raises_HTTPException c d \<Rightarrow>
                                    (Inl (Raised_HTTPException c d), Some temp_image_path, w4)
                                | Skin_raises_Exception e \<Rightarrow>
                                    (Inl Raised_Exception, Some temp_image_path, w4)
                                | Skin_returns analysis_results \<Rightarrow>
                                    (Inr analysis_results, Some temp_image_path, w4))))))"

text \<open>Lines 241 to 248, the \<open>finally\<close> block.  An \<open>OSError\<close> of \<open>os.remove\<close> is logged only.\<close>
definition detect_finally :: "env \<Rightarrow> path option \<Rightarrow> world \<Rightarrow> world" where
  "detect_finally env temp_image_path w =
     (case temp_image_path of
        None \<Rightarrow> w
      | Some p \<Rightarrow>
          if p \<noteq> [] \<and> os_path_exists w p
          then (case os_remove env p w of None \<Rightarrow> w | Some w' \<Rightarrow> w')
          else w)"

text \<open>Truth value of \<open>analysis_results\<close>: \<open>None\<close> and the dictionary without any key are
  false, every other dictionary is true.\<close>
definition dict_empty :: "analysis_dict \<Rightarrow> bool" where
  "dict_empty d =
     (key_success d = Missing \<and> key_message d = Missing \<and> key_severity_score d = Missing \<and>
      key_percentage_area d = Missing \<and> key_average_intensity d = Missing \<and>
      key_lesion_count d = Missing \<and> key_heatmap_overlay_bgr d = Missing \<and>
      key_detections d = Missing \<and> key_model_classes d = Missing \<and> other_keys d = [])"

definition truthy :: "analysis_dict option \<Rightarrow> bool" where
  "truthy r = (case r of None \<Rightarrow> False | Some d \<Rightarrow> \<not> dict_empty d)"

text \<open>Truth value of an optional flag: \<open>None\<close> is false.\<close>
definition get_or :: "'a option \<Rightarrow> 'a \<Rightarrow> 'a" where
  "get_or v d = (case v of None \<Rightarrow> d | Some x \<Rightarrow> x)"

text \<open>Lines 253 to 257: the error raised for a failed analysis with this message.\<close>
definition analysis_error :: "string \<Rightarrow> py_exception" where
  "analysis_error error_message =
     (let status_code = (if str_contains (lower error_message) ''not found'' then 404 else 500)
      in HTTPException status_code error_message)"

text \<open>Lines 259 to 273: the heatmap, \<open>None\<close> unless both encodings succeed.\<close>
definition encode_heatmap :: "env \<Rightarrow> heatmap_value option \<Rightarrow> string option" where
  "encode_heatmap env heatmap_data =
     (case heatmap_data of
        Some (Ndarray a) \<Rightarrow>
          (case imencode_png env a of
             Imencode_raises \<Rightarrow> None
           | Imencode_returns ok buffer \<Rightarrow> if ok then b64encode_decode env buffer else None)
      | _ \<Rightarrow> None)"

definition DetectionInfo_of :: "detection_dict \<Rightarrow> DetectionInfo" where
  "DetectionInfo_of det = \<lparr>class_name = get_class_name det, confidence = get_confidence det\<rparr>"

text \<open>
  Lines 250 to 290: interpreting the collaborator's result.  None of it is inside a \<open>try\<close>:
  a \<open>message\<close> that is \<open>None\<close> makes \<open>error_message.lower()\<close> raise \<open>AttributeError\<close> (line
  254); a \<open>detections\<close> that is \<open>None\<close> makes the comprehension raise \<open>TypeError\<close> (line 287)
  while the arguments of \<open>DetectionResponse\<close> are evaluated; and after that a \<open>message\<close>
  that is \<open>None\<close> fails the validation of the required field (line 279).
\<close>
definition process_results ::
  "env \<Rightarrow> analysis_dict option \<Rightarrow> py_exception + DetectionResponse" where
  "process_results env analysis_results =
     (case analysis_results of
        None \<Rightarrow> Inl (analysis_error ''Analysis function returned invalid data'')
      | Some d \<Rightarrow>
          if \<not> truthy analysis_results \<or> \<not> get_or (get_success d) False
          then
            (case (if truthy analysis_results
                   then dict_get_default (key_message d) ''Unknown analysis error''
                   else Some ''Analysis function returned invalid data'') of
               None \<Rightarrow> Inl AttributeError
             | Some error_message \<Rightarrow> Inl (analysis_error error_message))
          else
            let heatmap_base64 = encode_heatmap env (get_heatmap_overlay_bgr d) in
            (case dict_get_default (key_detections d) [] of
               None \<Rightarrow> Inl TypeError
             | Some dets \<Rightarrow>
                 (case dict_get_default (key_message d) ''Analysis successful.'' of
                    None \<Rightarrow> Inl ValidationError
                  | Some msg \<Rightarrow>
                      Inr \<lparr>success = True,
                           message = msg,
                           severity_score = get_severity_score d,
                           percentage_area = get_percentage_area d,
                           average_intensity = get_average_intensity d,
                           lesion_count = get_lesion_count d,
                           heatmap_image_base64 = heatmap_base64,
                           detections = Some (map DetectionInfo_of dets),
                           model_classes = get_model_classes d\<rparr>)))"

definition detect_skin_conditions ::
  "env \<Rightarrow> UploadFile \<Rightarrow> world \<Rightarrow> (py_exception + DetectionResponse) \<times> world" where
  "detect_skin_conditions env file w =
     (case analyze_skin_image env of
        None \<Rightarrow> (Inl (HTTPException 501 ''Detection analysis feature is not available.''), w)
      | Some analyze \<Rightarrow>
          if (case content_type file of None \<Rightarrow> True | Some t \<Rightarrow> t \<notin> set allowed_types)
          then (Inl (HTTPException 415
                       (''Invalid file type '' @ [CHR 0x27] @ str_opt (content_type file) @
                        [CHR 0x27] @ ''. Please upload JPG, PNG, or BMP.'')), w)
          else
            (case detect_try env analyze file w of
               (r, temp_image_path, w1) \<Rightarrow>
                 let w2 = detect_finally env temp_image_path w1 in
                 (case r of
                    Inl (Raised_HTTPException c d) \<Rightarrow> (Inl (HTTPException c d), w2)
                  | Inl Raised_Exception \<Rightarrow>
                      (Inl (HTTPException 500 ''An error occurred while processing the image.''),
                       w2)
                  | Inr analysis_results \<Rightarrow> (process_results env analysis_results, w2))))"

subsection \<open>Stub collaborators for concrete runs\<close>

text \<open>The result of a successful analysis that carries the success flag and nothing else.\<close>
definition stub_dict :: analysis_dict where
  "stub_dict =
     \<lparr>key_success = Value True, key_message = Missing, key_severity_score = Missing,
      key_percentage_area = Missing, key_average_intensity = Missing,
      key_lesion_count = Missing, key_heatmap_overlay_bgr = Missing,
      key_detections = Missing, key_model_classes = Missing, other_keys = []\<rparr>"

text \<open>A detection engine that returns the same result whatever it is given, and leaves the
  disk alone.\<close>
definition stub_analyze ::
  "analysis_dict option \<Rightarrow> path \<Rightarrow> path \<Rightarrow> (path \<rightharpoonup> bytes)
     \<Rightarrow> skin_outcome \<times> (path \<rightharpoonup> bytes)" where
  "stub_analyze r model_path image_path disk = (Skin_returns r, disk)"

text \<open>A toy image format: two bytes for the height, two for the width, then the data.\<close>
definition stub_imdecode :: "bytes \<Rightarrow> ndarray option" where
  "stub_imdecode b =
     (case b of
        rh # rl # ch # cl # px \<Rightarrow>
          Some \<lparr>rows = 256 * unat rh + unat rl, cols = 256 * unat ch + unat cl, data = px\<rparr>
      | _ \<Rightarrow> None)"

definition stub_imencode :: "ndarray \<Rightarrow> bytes" where
  "stub_imencode img =
     [of_nat (rows img div 256), of_nat (rows img mod 256),
      of_nat (cols img div 256), of_nat (cols img mod 256)] @ data img"

definition stub_imwrite :: "path \<Rightarrow> ndarray \<Rightarrow> imwrite_result" where
  "stub_imwrite p img = Imwrite_writes (stub_imencode img)"

text \<open>A file system that refuses a file name of more than 255 characters.\<close>
definition stub_name_too_long :: "path \<Rightarrow> bool" where
  "stub_name_too_long p = (255 < length (takeWhile (\<lambda>c. c \<noteq> CHR ''/'') (rev p)))"

definition stub_env :: env where
  "stub_env =
     \<lparr>BACK_DIR = ''/srv/back'',
      analyze_skin_image = Some (stub_analyze (Some stub_dict)),
      analyze_acne_data = Some (\<lambda>db_path disk. Acne_returns [] ''no data''),
      gettempdir = ''/tmp'',
      random_name = ''k3x9qz_a'',
      mkstemp_raises = stub_name_too_long,
      read_raises = False,
      write_raises = False,
      imdecode = stub_imdecode,
      resample = (\<lambda>img dsize. data img),
      imwrite_encode = stub_imwrite,
      remove_raises_OSError = (\<lambda>p. False),
      imencode_png = (\<lambda>a. Imencode_returns True (data a)),
      b64encode_decode = (\<lambda>b. Some ''aGVhdG1hcA=='')\<rparr>"

text \<open>A disk that holds the model weights and nothing else.\<close>
definition stub_world :: world where
  "stub_world =
     \<lparr>files = [''/srv/back/src/detection/best.pt'' \<mapsto> [1, 2, 3]], calls = []\<rparr>"

text \<open>An upload that the toy decoder reads as an image of 2 by 3.\<close>
definition stub_upload :: UploadFile where
  "stub_upload =
     \<lparr>filename = ''face.png'', content_type = Some ''image/png'', read = [0, 2, 0, 3, 7]\<rparr>"

definition stub_profile :: Profile where
  "stub_profile =
     \<lparr>user_id = ''user_1'', name = ''Ada'', dob = \<lparr>year = 1990, month = 7, day = 4\<rparr>,
      height = 0, weight = 0, gender = None\<rparr>"

text \<open>A profile store that always fails, with the given internal message.\<close>
definition stub_save_fails :: "string \<Rightarrow> save_args \<Rightarrow> nat \<Rightarrow> save_outcome \<times> nat" where
  "stub_save_fails e args db = (Save_raises e, db)"

text \<open>Variants: an empty upload, one whose extension makes the file name too long, one of a
  type that is not allowed; a \<open>cv2.imwrite\<close> that reports failure; failing analyses; a result
  with a lesion count; a result whose heatmap buffer cannot be encoded.\<close>
definition stub_empty_upload :: UploadFile where
  "stub_empty_upload = stub_upload\<lparr>read := []\<rparr>"

definition stub_long_upload :: UploadFile where
  "stub_long_upload = stub_empty_upload\<lparr>filename := ''a.'' @ replicate 300 (CHR ''b'')\<rparr>"

definition stub_pdf_upload :: UploadFile where
  "stub_pdf_upload =
     \<lparr>filename = ''scan.pdf'', content_type = Some ''application/pdf'', read = []\<rparr>"

definition stub_imwrite_fails :: "path \<Rightarrow> ndarray \<Rightarrow> imwrite_result" where
  "stub_imwrite_fails p img = Imwrite_returns_False"

definition stub_env_imwrite_fails :: env where
  "stub_env_imwrite_fails = stub_env\<lparr>imwrite_encode := stub_imwrite_fails\<rparr>"

definition stub_failure :: analysis_dict where
  "stub_failure =
     stub_dict\<lparr>key_success := Value False,
               key_message := Value ''weights could not be loaded''\<rparr>"

definition stub_image_missing :: analysis_dict where
  "stub_image_missing =
     stub_dict\<lparr>key_success := Value False, key_message := Value ''Image file Not Found''\<rparr>"

definition stub_counted :: analysis_dict where
  "stub_counted = stub_dict\<lparr>key_lesion_count := Value 3\<rparr>"





section \<open>Properties\<close>

lemmas stub_defs =
  stub_env_def stub_world_def stub_upload_def stub_dict_def stub_analyze_def
  stub_imdecode_def stub_imencode_def stub_imwrite_def stub_name_too_long_def

lemmas detect_defs =
  detect_skin_conditions_def detect_try_def detect_finally_def NamedTemporaryFile_def
  temp_name_def file_write_def cv2_imread_def cv2_resize_def cv2_imwrite_def
  os_path_exists_def os_remove_def MODEL_WEIGHTS_PATH_def allowed_types_def
  splitext_ext_def suffix_to_prefix Let_def

lemmas get_defs =
  get_success_def get_message_def get_severity_score_def get_percentage_area_def
  get_average_intensity_def get_lesion_count_def get_heatmap_overlay_bgr_def
  get_detections_def get_model_classes_def dict_get_def dict_get_default_def

lemmas result_defs =
  process_results_def analysis_error_def encode_heatmap_def truthy_def dict_empty_def
  get_or_def lower_def lower_char_def ascii_uppercase_def ascii_lowercase_def

subsection \<open>Auxiliary facts about \<open>/detect\<close>\<close>

lemma temp_name_nonempty: "temp_name env s \<noteq> []"
  by (simp add: temp_name_def)

lemma str_contains_sublist: "str_contains s sub \<longleftrightarrow> sublist sub s"
  by (induction s) (auto simp: sublist_Cons_right)

lemma detect_finally_calls: "calls (detect_finally env tp w) = calls w"
  by (simp add: detect_finally_def os_remove_def split: option.splits)

text \<open>Past the two guards, the world the handler leaves is the one the \<open>finally\<close> block
  leaves, and a value bound to \<open>analysis_results\<close> is interpreted by lines 250 to 290.\<close>
lemma detect_world:
  assumes "analyze_skin_image env = Some analyze"
    and "content_type file \<in> Some ` set allowed_types"
  shows "snd (detect_skin_conditions env file w) =
         detect_finally env (fst (snd (detect_try env analyze file w)))
           (snd (snd (detect_try env analyze file w)))"
  using assms
  by (auto simp: detect_skin_conditions_def Let_def
           split: prod.splits sum.splits detect_raised.splits option.splits)

lemma detect_result:
  assumes "analyze_skin_image env = Some analyze"
    and "content_type file \<in> Some ` set allowed_types"
    and "fst (detect_try env analyze file w) = Inr r"
  shows "fst (detect_skin_conditions env file w) = process_results env r"
  using assms
  by (auto simp: detect_skin_conditions_def Let_def split: prod.splits)

lemma detect_returns_allowed:
  assumes "fst (detect_skin_conditions env file w) = Inr resp"
  shows "content_type file \<in> Some ` set allowed_types"
  using assms
  by (auto simp: detect_skin_conditions_def split: option.splits if_splits)

text \<open>When the body of the \<open>try\<close> is left before \<open>temp_image_path\<close> is assigned, the file
  that \<open>NamedTemporaryFile\<close> created is still there, empty.\<close>
lemma detect_try_unstaged:
  assumes "\<not> mkstemp_raises env (temp_name env (splitext_ext (filename file)))"
    and "read_raises env \<or> read file = [] \<or> write_raises env"
  shows "snd (detect_try env analyze file w) =
         (None, w\<lparr>files := (files w)(temp_name env (splitext_ext (filename file)) \<mapsto> [])\<rparr>)"
  using assms
  by (auto simp: detect_try_def NamedTemporaryFile_def Let_def)

text \<open>When the upload has been written, \<open>temp_image_path\<close> is set on every way out.\<close>
lemma detect_try_staged:
  assumes "\<not> mkstemp_raises env (temp_name env (splitext_ext (filename file)))"
    and "\<not> read_raises env" and "read file \<noteq> []" and "\<not> write_raises env"
  shows "fst (snd (detect_try env analyze file w)) =
         Some (temp_name env (splitext_ext (filename file)))"
  using assms
  by (auto simp: detect_try_def NamedTemporaryFile_def Let_def
           split: option.splits prod.splits skin_outcome.splits)

lemma detect_finally_removes:
  assumes "\<not> remove_raises_OSError env p" and "p \<noteq> []"
  shows "files (detect_finally env (Some p) w1) p = None"
  using assms by (auto simp: detect_finally_def os_path_exists_def os_remove_def)

text \<open>The body of the \<open>try\<close> invokes the collaborator at most once, after \<open>cv2.imwrite\<close> has
  returned; the file at the temporary path is then the re-encoded image when \<open>cv2.imwrite\<close>
  wrote it, and the upload as received when \<open>cv2.imwrite\<close> returned \<open>False\<close>.\<close>
lemma detect_try_calls:
  "calls (snd (snd (detect_try env analyze file w))) = calls w \<or>
   (\<exists>img. imdecode env (read file) = Some img \<and>
      calls (snd (snd (detect_try env analyze file w))) = calls w @
        [Analyze_skin_image_call (MODEL_WEIGHTS_PATH env)
           (temp_name env (splitext_ext (filename file)))
           (case imwrite_encode env (temp_name env (splitext_ext (filename file)))
                   (cv2_resize env img (640, 640)) of
              Imwrite_writes b \<Rightarrow> Some b
            | _ \<Rightarrow> Some (read file))])"
  by (auto simp: detect_try_def NamedTemporaryFile_def file_write_def cv2_imwrite_def
                 cv2_imread_def Let_def
           split: option.splits prod.splits skin_outcome.splits imwrite_result.splits)

lemma analysis_error_sel:
  "analysis_error m =
     HTTPException (if sublist ''not found'' (lower m) then 404 else 500) m"
  by (simp add: analysis_error_def str_contains_sublist)

lemma default_messages:
  "\<not> sublist ''not found'' (lower ''Analysis function returned invalid data'')"
  "\<not> sublist ''not found'' (lower ''Unknown analysis error'')"
  by (simp_all add: str_contains_sublist [symmetric] lower_def lower_char_def
                    ascii_uppercase_def ascii_lowercase_def)

text \<open>The failure message of lines 251 and 252, when the result does not hold \<open>None\<close> under
  \<open>message\<close>.\<close>
lemma process_results_failure:
  assumes "r = None \<or> (\<exists>d. r = Some d \<and> get_success d \<noteq> Some True)"
    and "\<forall>d. r = Some d \<longrightarrow> key_message d \<noteq> Is_None"
  shows "process_results env r =
     Inl (analysis_error
       (case r of
          None \<Rightarrow> ''Analysis function returned invalid data''
        | Some d \<Rightarrow>
            if dict_empty d then ''Analysis function returned invalid data''
            else (case get_message d of
                    None \<Rightarrow> ''Unknown analysis error''
                  | Some m \<Rightarrow> m)))"
proof (cases r)
  case None
  then show ?thesis by (simp add: process_results_def)
next
  case (Some d)
  with assms have "get_success d \<noteq> Some True" and m: "key_message d \<noteq> Is_None" by simp_all
  then have "\<not> get_or (get_success d) False"
    by (cases "get_success d") (simp_all add: get_or_def)
  with Some m show ?thesis
    by (cases "key_message d")
       (simp_all add: process_results_def truthy_def get_message_def dict_get_def
                      dict_get_default_def)
qed

text \<open>Concrete runs, used below.\<close>
lemma stub_temp_name: "temp_name stub_env (splitext_ext ''face.png'') = ''/tmp/tmpk3x9qz_a.png''"
  by (simp add: stub_defs temp_name_def splitext_ext_def suffix_to_prefix)

lemma stub_try_returns:
  "fst (detect_try (stub_env\<lparr>analyze_skin_image := a\<rparr>)
          (stub_analyze r) stub_upload stub_world) = Inr r"
  by (simp add: stub_defs detect_defs)

lemma stub_allowed: "content_type stub_upload \<in> Some ` set allowed_types"
  by (simp add: stub_defs allowed_types_def)

subsection \<open>C1: the staged upload is cleaned up\<close>

text \<open>Where the code does clean up: once the upload has been written, the temporary file
  is gone after the call on every way out (unreadable image, \<open>cv2\<close> error, missing model file,
  collaborator exception, any collaborator result), unless \<open>os.remove\<close> itself fails.\<close>
lemma detect_staged_file_removed:
  assumes "analyze_skin_image env \<noteq> None"
    and "content_type file \<in> Some ` set allowed_types"
    and "\<not> mkstemp_raises env (temp_name env (splitext_ext (filename file)))"
    and "\<not> read_raises env" and "read file \<noteq> []" and "\<not> write_raises env"
    and "\<not> remove_raises_OSError env (temp_name env (splitext_ext (filename file)))"
  shows "files (snd (detect_skin_conditions env file w))
           (temp_name env (splitext_ext (filename file))) = None"
proof -
  from assms(1) obtain analyze where a: "analyze_skin_image env = Some analyze" by auto
  show ?thesis
    unfolding detect_world [OF a assms(2)] detect_try_staged [OF assms(3-6)]
    by (rule detect_finally_removes [OF assms(7) temp_name_nonempty])
qed

text \<open>Where it does not: when the body of the \<open>try\<close> is left before line 205 (empty upload,
  or \<open>read\<close> or \<open>write\<close> raising), \<open>temp_image_path\<close> is still \<open>None\<close>, the \<open>finally\<close> block
  does nothing, and the file that \<open>NamedTemporaryFile\<close> created stays on disk.\<close>
lemma detect_unstaged_file_stays:
  assumes "analyze_skin_image env \<noteq> None"
    and "content_type file \<in> Some ` set allowed_types"
    and "\<not> mkstemp_raises env (temp_name env (splitext_ext (filename file)))"
    and "read_raises env \<or> read file = [] \<or> write_raises env"
  shows "files (snd (detect_skin_conditions env file w)) =
         (files w)(temp_name env (splitext_ext (filename file)) \<mapsto> [])"
proof -
  from assms(1) obtain analyze where a: "analyze_skin_image env = Some analyze" by auto
  show ?thesis
    unfolding detect_world [OF a assms(2)] detect_try_unstaged [OF assms(3,4)]
    by (simp add: detect_finally_def)
qed

text \<open>
  Claim C1 says that after every \<open>/detect\<close> call that gets past the content-type check, on
  every exit path, an empty upload among them, no temporary file of the call is left.  The
  code does not do that: for an upload of type \<open>image/png\<close> with no bytes, the handler answers
  400 and the temporary file, which did not exist before the call, exists after it.
\<close>
theorem detect_empty_upload_leaves_temp_file:
  "content_type stub_empty_upload \<in> Some ` set allowed_types \<and>
   read stub_empty_upload = [] \<and>
   files stub_world ''/tmp/tmpk3x9qz_a.png'' = None \<and>
   fst (detect_skin_conditions stub_env stub_empty_upload stub_world) =
     Inl (HTTPException 400 ''Received empty file content.'') \<and>
   files (snd (detect_skin_conditions stub_env stub_empty_upload stub_world))
     ''/tmp/tmpk3x9qz_a.png'' = Some []"
  by (simp add: stub_defs stub_empty_upload_def detect_defs)

subsection \<open>C2: status of a failed analysis\<close>

text \<open>A failed analysis whose result holds \<open>None\<close> under \<open>message\<close>: line 254 raises
  \<open>AttributeError\<close>, and no error response is built.\<close>
lemma process_results_message_None:
  assumes "get_success d \<noteq> Some True" and "key_message d = Is_None"
  shows "process_results env (Some d) = Inl AttributeError"
proof -
  from assms(1) have "\<not> get_or (get_success d) False"
    by (cases "get_success d") (simp_all add: get_or_def)
  with assms(2) show ?thesis
    by (simp add: process_results_def truthy_def dict_empty_def dict_get_default_def)
qed

text \<open>
  Claim C2 says that a failed analysis (success flag false, or no result) yields 404 exactly
  when the failure message is \<open>model not found\<close>, and 500 otherwise.  The handler tests whether
  the lower-cased message contains \<open>not found\<close>.  What holds, for a result that does not hold
  \<open>None\<close> under \<open>message\<close>: the handler raises an error response whose status is 404 when the
  failure message, lower-cased, contains \<open>not found\<close>, and 500 when it does not; the failure
  message is the collaborator's when it gave one, and the status is 500 when there is no
  result or no message.
\<close>
theorem detect_failure_status:
  assumes "analyze_skin_image env = Some analyze"
    and "content_type file \<in> Some ` set allowed_types"
    and "fst (detect_try env analyze file w) = Inr r"
    and "r = None \<or> (\<exists>d. r = Some d \<and> get_success d \<noteq> Some True)"
    and "\<forall>d. r = Some d \<longrightarrow> key_message d \<noteq> Is_None"
  shows "\<exists>code msg.
           fst (detect_skin_conditions env file w) = Inl (HTTPException code msg) \<and>
           code = (if sublist ''not found'' (lower msg) then 404 else 500) \<and>
           (\<forall>d m. r = Some d \<and> get_message d = Some m \<longrightarrow> msg = m) \<and>
           (r = None \<or> (\<exists>d. r = Some d \<and> get_message d = None) \<longrightarrow> code = 500)"
proof -
  let ?m = "case r of
              None \<Rightarrow> ''Analysis function returned invalid data''
            | Some d \<Rightarrow>
                if dict_empty d then ''Analysis function returned invalid data''
                else (case get_message d of
                        None \<Rightarrow> ''Unknown analysis error''
                      | Some m \<Rightarrow> m)"
  let ?code = "if sublist ''not found'' (lower ?m) then 404 else 500 :: nat"
  have "fst (detect_skin_conditions env file w) = Inl (analysis_error ?m)"
    by (simp only: detect_result [OF assms(1-3)] process_results_failure [OF assms(4,5)])
  then have 1: "fst (detect_skin_conditions env file w) = Inl (HTTPException ?code ?m)"
    by (simp only: analysis_error_sel)
  have 2: "\<forall>d m. r = Some d \<and> get_message d = Some m \<longrightarrow> ?m = m"
    by (auto simp: dict_empty_def get_message_def dict_get_def split: entry.splits)
  have 3: "r = None \<or> (\<exists>d. r = Some d \<and> get_message d = None) \<longrightarrow> ?code = 500"
  proof
    assume "r = None \<or> (\<exists>d. r = Some d \<and> get_message d = None)"
    then have "?m = ''Analysis function returned invalid data'' \<or> ?m = ''Unknown analysis error''"
      by (cases r) auto
    then show "?code = 500"
      using default_messages by presburger
  qed
  from 1 2 3 show ?thesis by blast
qed

theorem detect_failure_status_witness:
  "analyze_skin_image (stub_env\<lparr>analyze_skin_image := Some (stub_analyze (Some stub_failure))\<rparr>)
     = Some (stub_analyze (Some stub_failure)) \<and>
   content_type stub_upload \<in> Some ` set allowed_types \<and>
   fst (detect_try (stub_env\<lparr>analyze_skin_image := Some (stub_analyze (Some stub_failure))\<rparr>)
          (stub_analyze (Some stub_failure)) stub_upload stub_world) = Inr (Some stub_failure) \<and>
   get_success stub_failure \<noteq> Some True \<and>
   key_message stub_failure \<noteq> Is_None \<and>
   fst (detect_skin_conditions
          (stub_env\<lparr>analyze_skin_image := Some (stub_analyze (Some stub_failure))\<rparr>)
          stub_upload stub_world) = Inl (HTTPException 500 ''weights could not be loaded'')"
proof -
  let ?env = "stub_env\<lparr>analyze_skin_image := Some (stub_analyze (Some stub_failure))\<rparr>"
  have h1: "analyze_skin_image ?env = Some (stub_analyze (Some stub_failure))" by simp
  have h3: "fst (detect_try ?env (stub_analyze (Some stub_failure)) stub_upload stub_world)
              = Inr (Some stub_failure)"
    by (rule stub_try_returns)
  have h4: "get_success stub_failure \<noteq> Some True"
    by (simp add: stub_failure_def stub_dict_def get_defs)
  have h5: "key_message stub_failure \<noteq> Is_None"
    by (simp add: stub_failure_def)
  have h4': "Some stub_failure = None \<or>
             (\<exists>d. Some stub_failure = Some d \<and> get_success d \<noteq> Some True)"
    using h4 by simp
  have h5': "\<forall>d. Some stub_failure = Some d \<longrightarrow> key_message d \<noteq> Is_None"
    using h5 by simp
  have m: "get_message stub_failure = Some ''weights could not be loaded''"
    by (simp add: stub_failure_def get_defs)
  have n: "\<not> sublist ''not found'' (lower ''weights could not be loaded'')"
    by (simp add: str_contains_sublist [symmetric] lower_def lower_char_def
                  ascii_uppercase_def ascii_lowercase_def)
  from detect_failure_status [OF h1 stub_allowed h3 h4' h5'] obtain code msg
    where "fst (detect_skin_conditions ?env stub_upload stub_world) =
             Inl (HTTPException code msg)"
      and "code = (if sublist ''not found'' (lower msg) then 404 else 500)"
      and "\<forall>d m. Some stub_failure = Some d \<and> get_message d = Some m \<longrightarrow> msg = m"
    by blast
  with m n have "fst (detect_skin_conditions ?env stub_upload stub_world) =
      Inl (HTTPException 500 ''weights could not be loaded'')"
    by simp
  with h1 stub_allowed h3 h4 h5 show ?thesis by (simp only: simp_thms)
qed

text \<open>A failure message other than \<open>model not found\<close> that yields 404.\<close>
theorem detect_failure_status_counterexample:
  "fst (detect_skin_conditions
          (stub_env\<lparr>analyze_skin_image := Some (stub_analyze (Some stub_image_missing))\<rparr>)
          stub_upload stub_world) = Inl (HTTPException 404 ''Image file Not Found'') \<and>
   get_success stub_image_missing = Some False \<and>
   get_message stub_image_missing = Some ''Image file Not Found''"
  by (simp add: stub_defs stub_image_missing_def detect_defs result_defs get_defs)

subsection \<open>C3: fields the collaborator omits\<close>

text \<open>
  Claim C3 says that in a successful response every field other than \<open>success\<close> and
  \<open>message\<close> is absent whenever the collaborator omits the corresponding value.  The handler
  reads \<open>detections\<close> with the default \<open>[]\<close> and builds a list from it.  What holds:
  \<open>severity_score\<close>, \<open>percentage_area\<close>, \<open>average_intensity\<close>, \<open>lesion_count\<close>,
  \<open>heatmap_image_base64\<close> and \<open>model_classes\<close> are absent whenever the collaborator omits the
  corresponding value, and \<open>detections\<close> is then the empty list.
\<close>
theorem detect_omitted_fields:
  assumes "analyze_skin_image env = Some analyze"
    and "fst (detect_try env analyze file w) = Inr (Some d)"
    and "fst (detect_skin_conditions env file w) = Inr resp"
  shows "(get_severity_score d = None \<longrightarrow> severity_score resp = None) \<and>
         (get_percentage_area d = None \<longrightarrow> percentage_area resp = None) \<and>
         (get_average_intensity d = None \<longrightarrow> average_intensity resp = None) \<and>
         (get_lesion_count d = None \<longrightarrow> lesion_count resp = None) \<and>
         (get_heatmap_overlay_bgr d = None \<longrightarrow> heatmap_image_base64 resp = None) \<and>
         (get_model_classes d = None \<longrightarrow> model_classes resp = None) \<and>
         (get_detections d = None \<longrightarrow> detections resp = Some [])"
proof -
  have "process_results env (Some d) = Inr resp"
    using detect_result [OF assms(1) detect_returns_allowed [OF assms(3)] assms(2)] assms(3)
    by simp
  then show ?thesis
    by (auto simp: process_results_def encode_heatmap_def get_detections_def dict_get_def
                   dict_get_default_def Let_def
             split: if_splits option.splits entry.splits)
qed

theorem detect_omitted_fields_witness:
  "analyze_skin_image (stub_env\<lparr>analyze_skin_image := Some (stub_analyze (Some stub_counted))\<rparr>)
     = Some (stub_analyze (Some stub_counted)) \<and>
   fst (detect_try (stub_env\<lparr>analyze_skin_image := Some (stub_analyze (Some stub_counted))\<rparr>)
          (stub_analyze (Some stub_counted)) stub_upload stub_world) = Inr (Some stub_counted) \<and>
   fst (detect_skin_conditions
          (stub_env\<lparr>analyze_skin_image := Some (stub_analyze (Some stub_counted))\<rparr>)
          stub_upload stub_world) =
     Inr \<lparr>success = True, message = ''Analysis successful.'', severity_score = None,
          percentage_area = None, average_intensity = None, lesion_count = Some 3,
          heatmap_image_base64 = None, detections = Some [], model_classes = None\<rparr> \<and>
   get_severity_score stub_counted = None \<and>
   get_lesion_count stub_counted = Some 3 \<and>
   get_detections stub_counted = None"
proof -
  let ?env = "stub_env\<lparr>analyze_skin_image := Some (stub_analyze (Some stub_counted))\<rparr>"
  let ?resp = "\<lparr>success = True, message = ''Analysis successful.'', severity_score = None,
          percentage_area = None, average_intensity = None, lesion_count = Some 3,
          heatmap_image_base64 = None, detections = Some [], model_classes = None\<rparr>"
  have h1: "analyze_skin_image ?env = Some (stub_analyze (Some stub_counted))" by simp
  have h2: "fst (detect_try ?env (stub_analyze (Some stub_counted)) stub_upload stub_world)
              = Inr (Some stub_counted)"
    by (rule stub_try_returns)
  have h3: "fst (detect_skin_conditions ?env stub_upload stub_world) = Inr ?resp"
    unfolding detect_result [OF h1 stub_allowed h2]
    by (simp add: stub_counted_def stub_dict_def result_defs get_defs)
  have d: "get_severity_score stub_counted = None \<and> get_lesion_count stub_counted = Some 3 \<and>
           get_detections stub_counted = None"
    by (simp add: stub_counted_def stub_dict_def get_defs)
  from detect_omitted_fields [OF h1 h2 h3] d
  have "severity_score ?resp = None \<and> detections ?resp = Some []" by simp
  with h1 h2 h3 d show ?thesis by (simp only: simp_thms)
qed

text \<open>The collaborator omits \<open>detections\<close>, and the response carries a list.\<close>
theorem detect_omitted_fields_counterexample:
  "get_detections stub_dict = None \<and>
   fst (detect_skin_conditions stub_env stub_upload stub_world) =
     Inr \<lparr>success = True, message = ''Analysis successful.'', severity_score = None,
          percentage_area = None, average_intensity = None, lesion_count = None,
          heatmap_image_base64 = None, detections = Some [], model_classes = None\<rparr>"
  by (simp add: stub_defs detect_defs result_defs get_defs)

subsection \<open>C4: a heatmap that cannot be encoded\<close>

text \<open>A heatmap buffer that cannot be encoded changes nothing else: the handler does what it
  does for the same result without the \<open>heatmap_overlay_bgr\<close> key.\<close>
lemma heatmap_failure_as_omitted:
  assumes "get_success d = Some True"
    and "get_heatmap_overlay_bgr d = Some (Ndarray a)"
    and "imencode_png env a = Imencode_raises \<or>
         (\<exists>buffer. imencode_png env a = Imencode_returns False buffer) \<or>
         (\<exists>buffer. imencode_png env a = Imencode_returns True buffer \<and>
                    b64encode_decode env buffer = None)"
  shows "process_results env (Some d) =
         process_results env (Some (d\<lparr>key_heatmap_overlay_bgr := Missing\<rparr>))"
proof -
  have e: "encode_heatmap env (get_heatmap_overlay_bgr d) = None"
    using assms(2,3) by (auto simp: encode_heatmap_def)
  have s: "key_success d = Value True"
    using assms(1) by (cases "key_success d") (simp_all add: get_success_def dict_get_def)
  let ?d = "d\<lparr>key_heatmap_overlay_bgr := Missing\<rparr>"
  have e': "encode_heatmap env (get_heatmap_overlay_bgr ?d) = None"
    by (simp add: encode_heatmap_def get_heatmap_overlay_bgr_def dict_get_def)
  have g: "get_success ?d = get_success d" "get_severity_score ?d = get_severity_score d"
    "get_percentage_area ?d = get_percentage_area d"
    "get_average_intensity ?d = get_average_intensity d"
    "get_lesion_count ?d = get_lesion_count d" "get_model_classes ?d = get_model_classes d"
    by (simp_all add: get_success_def get_severity_score_def get_percentage_area_def
                      get_average_intensity_def get_lesion_count_def get_model_classes_def)
  have t: "truthy (Some d)" "truthy (Some ?d)"
    by (simp_all add: truthy_def dict_empty_def s)
  show ?thesis
    by (simp add: process_results_def e e' g t split: option.splits)
qed



subsection \<open>C5: a content type that is not allowed\<close>

text \<open>
  Claim C5: when the detection collaborator is available and the declared content type is none
  of \<open>image/jpeg\<close>, \<open>image/png\<close>, \<open>image/bmp\<close>, then whatever the bytes are the handler raises
  415 with a detail that names the rejected type, and leaves the world as it was: no temporary
  file, no collaborator call.
\<close>
theorem detect_unsupported_media_type:
  assumes "analyze_skin_image env \<noteq> None"
    and "content_type file \<noteq> Some ''image/jpeg''"
    and "content_type file \<noteq> Some ''image/png''"
    and "content_type file \<noteq> Some ''image/bmp''"
  shows "detect_skin_conditions env file w =
     (Inl (HTTPException 415
        (''Invalid file type '' @ [CHR 0x27] @ str_opt (content_type file) @ [CHR 0x27] @
         ''. Please upload JPG, PNG, or BMP.'')), w)"
  using assms by (auto simp: detect_skin_conditions_def allowed_types_def split: option.splits)

theorem detect_unsupported_media_type_witness:
  "analyze_skin_image stub_env \<noteq> None \<and>
   content_type stub_pdf_upload \<noteq> Some ''image/jpeg'' \<and>
   content_type stub_pdf_upload \<noteq> Some ''image/png'' \<and>
   content_type stub_pdf_upload \<noteq> Some ''image/bmp'' \<and>
   detect_skin_conditions stub_env stub_pdf_upload stub_world =
     (Inl (HTTPException 415
        ''Invalid file type 'application/pdf'. Please upload JPG, PNG, or BMP.''), stub_world)"
proof -
  have h1: "analyze_skin_image stub_env \<noteq> None" by (simp add: stub_defs)
  have h2: "content_type stub_pdf_upload \<noteq> Some ''image/jpeg''"
    and h3: "content_type stub_pdf_upload \<noteq> Some ''image/png''"
    and h4: "content_type stub_pdf_upload \<noteq> Some ''image/bmp''"
    by (simp_all add: stub_pdf_upload_def)
  have s: "str_opt (content_type stub_pdf_upload) = ''application/pdf''"
    by (simp add: stub_pdf_upload_def str_opt_def)
  from detect_unsupported_media_type [OF h1 h2 h3 h4, of stub_world]
  have "detect_skin_conditions stub_env stub_pdf_upload stub_world =
     (Inl (HTTPException 415
        ''Invalid file type 'application/pdf'. Please upload JPG, PNG, or BMP.''), stub_world)"
    by (simp add: s)
  with h1 h2 h3 h4 show ?thesis by (simp only: simp_thms)
qed

subsection \<open>C6: an empty upload\<close>

text \<open>
  Claim C6 says that an upload of an allowed content type with a payload of length zero
  yields 400 and that the detection collaborator is not invoked.  The handler creates the
  temporary file, with a suffix taken from the client's file name, and reads the upload before
  it tests for emptiness, and an exception of either step is answered with 500.  What holds
  when the detection collaborator is available: the handler raises 400 when the temporary
  file could be created and the upload read, and 500 when one of the two raised; in both cases
  the detection collaborator is not invoked.
\<close>
theorem detect_empty_upload_status:
  assumes "analyze_skin_image env \<noteq> None"
    and "content_type file = Some ''image/jpeg'' \<or> content_type file = Some ''image/png'' \<or>
         content_type file = Some ''image/bmp''"
    and "read file = []"
  shows "fst (detect_skin_conditions env file w) =
           (if mkstemp_raises env (temp_name env (splitext_ext (filename file))) \<or>
               read_raises env
            then Inl (HTTPException 500 ''An error occurred while processing the image.'')
            else Inl (HTTPException 400 ''Received empty file content.'')) \<and>
         calls (snd (detect_skin_conditions env file w)) = calls w"
  using assms
  by (auto simp: detect_skin_conditions_def detect_try_def NamedTemporaryFile_def
                 detect_finally_def allowed_types_def Let_def)

theorem detect_empty_upload_status_witness:
  "analyze_skin_image stub_env \<noteq> None \<and>
   content_type stub_empty_upload = Some ''image/png'' \<and>
   read stub_empty_upload = [] \<and>
   \<not> mkstemp_raises stub_env ''/tmp/tmpk3x9qz_a.png'' \<and>
   \<not> read_raises stub_env \<and>
   fst (detect_skin_conditions stub_env stub_empty_upload stub_world) =
     Inl (HTTPException 400 ''Received empty file content.'') \<and>
   calls (snd (detect_skin_conditions stub_env stub_empty_upload stub_world)) = []"
proof -
  have h1: "analyze_skin_image stub_env \<noteq> None" by (simp add: stub_defs)
  have h2: "content_type stub_empty_upload = Some ''image/png''"
    by (simp add: stub_empty_upload_def stub_upload_def)
  have h3: "read stub_empty_upload = []" by (simp add: stub_empty_upload_def)
  have f: "filename stub_empty_upload = ''face.png''"
    by (simp add: stub_empty_upload_def stub_upload_def)
  have m: "\<not> mkstemp_raises stub_env ''/tmp/tmpk3x9qz_a.png''"
    by (simp add: stub_defs)
  have r: "\<not> read_raises stub_env" by (simp add: stub_defs)
  have c: "calls stub_world = []" by (simp add: stub_world_def)
  from detect_empty_upload_status [OF h1 disjI2 [OF disjI1 [OF h2]] h3, of stub_world]
  show ?thesis using h1 h2 h3 m r by (simp only: c f stub_temp_name simp_thms if_False)
qed

text \<open>An empty upload of type \<open>image/png\<close> whose file name has an extension of 300
  characters: the file system refuses the name of the temporary file, and the answer is 500.\<close>
theorem detect_empty_upload_status_counterexample:
  "analyze_skin_image stub_env \<noteq> None \<and>
   content_type stub_long_upload = Some ''image/png'' \<and>
   read stub_long_upload = [] \<and>
   fst (detect_skin_conditions stub_env stub_long_upload stub_world) =
     Inl (HTTPException 500 ''An error occurred while processing the image.'')"
  by (simp add: stub_defs stub_long_upload_def stub_empty_upload_def detect_defs
                takeWhile_append)

subsection \<open>C7: the collaborator is handed the resized image\<close>

text \<open>What the code does: whenever the handler invokes the collaborator, the upload has been
  decoded and \<open>cv2.imwrite\<close> has been called on the 640 by 640 resize; the file at the path
  then holds the re-encoded image when \<open>cv2.imwrite\<close> wrote it, and the upload as received
  when \<open>cv2.imwrite\<close> returned \<open>False\<close>.\<close>
lemma detect_collaborator_file:
  assumes "calls (snd (detect_skin_conditions env file w)) \<noteq> calls w"
  shows "\<exists>img.
     imdecode env (read file) = Some img \<and>
     rows (cv2_resize env img (640, 640)) = 640 \<and>
     cols (cv2_resize env img (640, 640)) = 640 \<and>
     calls (snd (detect_skin_conditions env file w)) = calls w @
       [Analyze_skin_image_call (MODEL_WEIGHTS_PATH env)
          (temp_name env (splitext_ext (filename file)))
          (case imwrite_encode env (temp_name env (splitext_ext (filename file)))
                  (cv2_resize env img (640, 640)) of
             Imwrite_writes b \<Rightarrow> Some b
           | _ \<Rightarrow> Some (read file))]"
proof (cases "analyze_skin_image env")
  case None
  with assms show ?thesis by (simp add: detect_skin_conditions_def)
next
  case (Some analyze)
  show ?thesis
  proof (cases "content_type file \<in> Some ` set allowed_types")
    case False
    with Some assms show ?thesis
      by (auto simp: detect_skin_conditions_def split: option.splits)
  next
    case True
    have c: "calls (snd (detect_skin_conditions env file w)) =
             calls (snd (snd (detect_try env analyze file w)))"
      by (simp add: detect_world [OF Some True] detect_finally_calls)
    from detect_try_calls [of env analyze "file" w] assms c show ?thesis
      by (auto simp: cv2_resize_def)
  qed
qed

text \<open>
  Claim C7 says that the staged image is resized to 640 by 640 and re-encoded over the same
  temporary file before the collaborator is invoked, so that the collaborator always receives
  a 640 by 640 image at that path.  The handler drops the flag that \<open>cv2.imwrite\<close> returns
  (line 213): when \<open>cv2.imwrite\<close> reports failure, the collaborator is invoked all the same,
  and the file at the path is the upload as received, here an image of 2 by 3.
\<close>
theorem detect_imwrite_failure_passes_upload:
  "imdecode stub_env_imwrite_fails (read stub_upload) = Some \<lparr>rows = 2, cols = 3, data = [7]\<rparr> \<and>
   imwrite_encode stub_env_imwrite_fails ''/tmp/tmpk3x9qz_a.png''
     (cv2_resize stub_env_imwrite_fails \<lparr>rows = 2, cols = 3, data = [7]\<rparr> (640, 640)) =
     Imwrite_returns_False \<and>
   calls (snd (detect_skin_conditions stub_env_imwrite_fails stub_upload stub_world)) =
     [Analyze_skin_image_call ''/srv/back/src/detection/best.pt'' ''/tmp/tmpk3x9qz_a.png''
        (Some (read stub_upload))] \<and>
   isl (fst (detect_skin_conditions stub_env_imwrite_fails stub_upload stub_world)) = False"
  by (simp add: stub_env_imwrite_fails_def stub_imwrite_fails_def stub_defs detect_defs
                result_defs get_defs)

subsection \<open>C8: \<open>/analyze/\<close> without its data source\<close>

text \<open>
  Claim C8: when the correlation collaborator is available and nothing exists at the configured
  database path, \<open>/analyze/\<close> raises 404 with a detail that names that path, and the
  collaborator is not invoked (the world, call log included, is as before).
\<close>
theorem analyze_missing_db_404:
  assumes "analyze_acne_data env \<noteq> None"
    and "files w (os_path_join (BACK_DIR env) [[], ''acne_tracker.db'']) = None"
  shows "analyze_endpoint env w =
           (Inl (HTTPException 404
                  (''Database file not found at required path: '' @
                   os_path_join (BACK_DIR env) [[], ''acne_tracker.db''])), w)"
  using assms
  by (auto simp: analyze_endpoint_def analyze_try_def os_path_exists_def Let_def)

theorem analyze_missing_db_404_witness:
  "analyze_acne_data stub_env \<noteq> None \<and>
   files stub_world ''/srv/back/acne_tracker.db'' = None \<and>
   analyze_endpoint stub_env stub_world =
     (Inl (HTTPException 404
        ''Database file not found at required path: /srv/back/acne_tracker.db''), stub_world)"
proof -
  have p: "os_path_join (BACK_DIR stub_env) [[], ''acne_tracker.db''] =
             ''/srv/back/acne_tracker.db''"
    by (simp add: stub_defs suffix_to_prefix)
  have h1: "analyze_acne_data stub_env \<noteq> None" by (simp add: stub_defs)
  have h2: "files stub_world ''/srv/back/acne_tracker.db'' = None" by (simp add: stub_defs)
  have h2': "files stub_world (os_path_join (BACK_DIR stub_env) [[], ''acne_tracker.db'']) = None"
    using h2 by (simp only: p)
  from analyze_missing_db_404 [OF h1 h2', unfolded p]
  have "analyze_endpoint stub_env stub_world =
     (Inl (HTTPException 404
        ''Database file not found at required path: /srv/back/acne_tracker.db''), stub_world)"
    by simp
  with h1 h2 show ?thesis by (simp only: simp_thms)
qed

subsection \<open>C9: a failing profile store\<close>

text \<open>
  Claim C9: whenever the profile-store collaborator raises, \<open>save_profile_endpoint\<close> answers
  with status 500 and the fixed detail \<open>Failed to save profile.\<close>; two such failures with
  different internal messages give the same response.
\<close>
theorem save_profile_failure_generic:
  assumes "fst (save1 (save_args_of profile1) db1) = Save_raises e1"
    and "fst (save2 (save_args_of profile2) db2) = Save_raises e2"
  shows "fst (save_profile_endpoint (Some save1) profile1 db1) =
           Inl (HTTPException 500 ''Failed to save profile.'') \<and>
         fst (save_profile_endpoint (Some save2) profile2 db2) =
           fst (save_profile_endpoint (Some save1) profile1 db1)"
  using assms
  by (auto simp: save_profile_endpoint_def split: prod.splits save_outcome.splits)

theorem save_profile_failure_generic_witness:
  "fst (stub_save_fails ''UNIQUE constraint failed: profiles.user_id''
          (save_args_of stub_profile) 0) =
     Save_raises ''UNIQUE constraint failed: profiles.user_id'' \<and>
   fst (stub_save_fails ''database is locked'' (save_args_of stub_profile) 0) =
     Save_raises ''database is locked'' \<and>
   fst (save_profile_endpoint
          (Some (stub_save_fails ''UNIQUE constraint failed: profiles.user_id''))
          stub_profile 0) = Inl (HTTPException 500 ''Failed to save profile.'') \<and>
   fst (save_profile_endpoint (Some (stub_save_fails ''database is locked'')) stub_profile 0) =
     Inl (HTTPException 500 ''Failed to save profile.'')"
proof -
  have h1: "fst (stub_save_fails ''UNIQUE constraint failed: profiles.user_id''
                   (save_args_of stub_profile) 0) =
              Save_raises ''UNIQUE constraint failed: profiles.user_id''"
    by (simp add: stub_save_fails_def)
  have h2: "fst (stub_save_fails ''database is locked'' (save_args_of stub_profile) 0) =
              Save_raises ''database is locked''"
    by (simp add: stub_save_fails_def)
  from save_profile_failure_generic
         [of "stub_save_fails ''UNIQUE constraint failed: profiles.user_id''" stub_profile 0
             "''UNIQUE constraint failed: profiles.user_id''"
             "stub_save_fails ''database is locked''" stub_profile 0 "''database is locked''",
          OF h1 h2] h1 h2
  show ?thesis by (simp only: simp_thms)
qed

subsection \<open>C10: availability is checked first\<close>

text \<open>
  Claim C10: when the detection collaborator is unavailable, every upload, also one with a
  content type that is not allowed or with an empty payload, yields 501 (never 415 or 400), and
  nothing else happens.
\<close>
theorem detect_unavailable_501:
  assumes "analyze_skin_image env = None"
  shows "detect_skin_conditions env file w =
     (Inl (HTTPException 501 ''Detection analysis feature is not available.''), w)"
  using assms by (simp add: detect_skin_conditions_def)

theorem detect_unavailable_501_witness:
  "analyze_skin_image (stub_env\<lparr>analyze_skin_image := None\<rparr>) = None \<and>
   content_type stub_pdf_upload = Some ''application/pdf'' \<and>
   read stub_pdf_upload = [] \<and>
   detect_skin_conditions (stub_env\<lparr>analyze_skin_image := None\<rparr>) stub_pdf_upload stub_world =
     (Inl (HTTPException 501 ''Detection analysis feature is not available.''), stub_world)"
proof -
  have h: "analyze_skin_image (stub_env\<lparr>analyze_skin_image := None\<rparr>) = None" by simp
  have u: "content_type stub_pdf_upload = Some ''application/pdf'' \<and> read stub_pdf_upload = []"
    by (simp add: stub_pdf_upload_def)
  from detect_unavailable_501 [OF h, of stub_pdf_upload stub_world] h u show ?thesis
    by (simp only: simp_thms)
qed

end
